theory Spec2Isabelle
  imports Main "HOL-Library.Sublist"
begin

section \<open>Client roster dashboard: CSV import, CSV export and the roster store\<close>

text \<open>
  The development embeds the logic of the repository's four source files: the import
  dialog \<^verbatim>\<open>src/components/ImportModal.tsx\<close> (header resolution and row validation of
  the CSV import), the application component \<^verbatim>\<open>App\<close> (\<^verbatim>\<open>unnamed/part_000\<close>: the roster
  held in React state, its update, delete and export handlers), the module \<^verbatim>\<open>types\<close>
  (\<^verbatim>\<open>unnamed/part_002\<close>: the client record and the status literals) and the units input of
  the table \<^verbatim>\<open>src/components/ClientTable.tsx\<close>.

  Conventions of the embedding.
  \<^item> A JavaScript string is a \<^typ>\<open>string\<close>: a list of code units below 256, that is,
    text of the Latin-1 range (a \<^typ>\<open>char\<close> holds eight bits). On this type the string
    functions are those of ECMAScript: \<^verbatim>\<open>toLowerCase\<close> maps \<^verbatim>\<open>A-Z\<close> and the capital
    letters \<^verbatim>\<open>U+00C0-U+00DE\<close> (the sign \<^verbatim>\<open>U+00D7\<close> apart) to their small letters, and
    the white space of \<^verbatim>\<open>\s\<close>, of \<^verbatim>\<open>trim\<close> and of \<^verbatim>\<open>parseInt\<close> is tab, line feed,
    vertical tab, form feed, carriage return, space and the no-break space \<^verbatim>\<open>U+00A0\<close>.
  \<^item> A JavaScript number that holds an integer is an \<^typ>\<open>int\<close>; \<^verbatim>\<open>NaN\<close> is \<open>None\<close>.
  \<^item> \<^verbatim>\<open>undefined\<close> is \<open>None\<close>; the truthiness test \<^verbatim>\<open>!x\<close> on an optional string is
    written out (\<^verbatim>\<open>undefined\<close> and the empty string are falsy).
  \<^item> What the browser supplies (date parsing and formatting, the clock, fresh ids) is a
    record of functions passed to the code that uses it.
\<close>

subsection \<open>The module \<^verbatim>\<open>types\<close>\<close>

record client =
  id_client :: string
  name :: string
  clinician :: string
  assignedDate :: string
  unitsUsed :: int
  status :: string
  lastUpdated :: string

definition CLIENT_STATUSES :: "string list" where
  "CLIENT_STATUSES =
     [''New Authorization'',
      ''Current Authorization'',
      ''Current Authorization (New LBS)'',
      ''Newly Assigned'',
      ''Client Hospitalized'',
      ''Frequent Caregiver Cancellations'']"

subsection \<open>The browser environment\<close>

text \<open>
  \<open>dateParse s\<close> is the time value (milliseconds since the epoch) of \<^verbatim>\<open>new Date(s)\<close>,
  \<open>None\<close> for an invalid date; \<open>toISOString\<close> and \<open>toLocaleDateString\<close> format a time
  value. \<open>currentTime k\<close> is what \<^verbatim>\<open>new Date()\<close> reads and \<open>randomUUID k\<close> what
  \<^verbatim>\<open>crypto.randomUUID()\<close> returns when called while element \<open>k\<close> of the array being
  traversed is processed (each element makes at most one such call).
\<close>

record js_env =
  dateParse :: "string \<Rightarrow> int option"
  toISOString :: "int \<Rightarrow> string"
  toLocaleDateString :: "int \<Rightarrow> string"
  currentTime :: "nat \<Rightarrow> int"
  randomUUID :: "nat \<Rightarrow> string"

text \<open>\<^verbatim>\<open>new Date().toISOString()\<close> while element \<open>k\<close> is processed.\<close>

definition nowISO :: "js_env \<Rightarrow> nat \<Rightarrow> string" where
  "nowISO env k = toISOString env (currentTime env k)"

text \<open>\<^verbatim>\<open>new Date(s).toLocaleDateString()\<close>; an invalid date renders as \<^verbatim>\<open>Invalid Date\<close>.\<close>

definition localeDateOf :: "js_env \<Rightarrow> string \<Rightarrow> string" where
  "localeDateOf env s =
     (case dateParse env s of None \<Rightarrow> ''Invalid Date'' | Some t \<Rightarrow> toLocaleDateString env t)"

subsection \<open>The component \<^verbatim>\<open>App\<close>: the roster handlers\<close>

text \<open>
  \<^verbatim>\<open>clients.map(client => client.id === id ? { ...client, status, lastUpdated: now } : client)\<close>
\<close>

definition handleStatusChange :: "js_env \<Rightarrow> client list \<Rightarrow> string \<Rightarrow> string \<Rightarrow> client list" where
  "handleStatusChange env clients i s =
     map (\<lambda>(k, c). if id_client c = i
                     then c\<lparr>status := s, lastUpdated := nowISO env k\<rparr>
                     else c)
         (enumerate 0 clients)"

definition handleUnitsChange :: "js_env \<Rightarrow> client list \<Rightarrow> string \<Rightarrow> int \<Rightarrow> client list" where
  "handleUnitsChange env clients i units =
     map (\<lambda>(k, c). if id_client c = i
                     then c\<lparr>unitsUsed := units, lastUpdated := nowISO env k\<rparr>
                     else c)
         (enumerate 0 clients)"

text \<open>\<^verbatim>\<open>setClients([...clients, ...importedClients])\<close>\<close>

definition handleImportClients :: "client list \<Rightarrow> client list \<Rightarrow> client list" where
  "handleImportClients clients importedClients = clients @ importedClients"

text \<open>\<^verbatim>\<open>setClients(clients.filter(client => client.id !== id))\<close>\<close>

definition handleDeleteClient :: "client list \<Rightarrow> string \<Rightarrow> client list" where
  "handleDeleteClient clients i = filter (\<lambda>c. id_client c \<noteq> i) clients"

subsection \<open>Strings and numbers of the JavaScript runtime\<close>

text \<open>
  The white space and line terminator code units below 256: \<^verbatim>\<open>U+0009\<close> to
  \<^verbatim>\<open>U+000D\<close>, \<^verbatim>\<open>U+0020\<close> and \<^verbatim>\<open>U+00A0\<close>.
\<close>

definition isWhiteSpace :: "char \<Rightarrow> bool" where
  "isWhiteSpace c \<longleftrightarrow>
     c \<in> set [CHR 0x09, CHR 0x0A, CHR 0x0B, CHR 0x0C, CHR 0x0D, CHR '' '', CHR 0xA0]"

text \<open>The capital letters below 256 and, in the same order, their small letters.\<close>

definition upperCaseLetters :: string where
  "upperCaseLetters =
     ''ABCDEFGHIJKLMNOPQRSTUVWXYZ'' @
     [CHR 0xC0, CHR 0xC1, CHR 0xC2, CHR 0xC3, CHR 0xC4, CHR 0xC5, CHR 0xC6, CHR 0xC7,
      CHR 0xC8, CHR 0xC9, CHR 0xCA, CHR 0xCB, CHR 0xCC, CHR 0xCD, CHR 0xCE, CHR 0xCF,
      CHR 0xD0, CHR 0xD1, CHR 0xD2, CHR 0xD3, CHR 0xD4, CHR 0xD5, CHR 0xD6,
      CHR 0xD8, CHR 0xD9, CHR 0xDA, CHR 0xDB, CHR 0xDC, CHR 0xDD, CHR 0xDE]"

definition lowerCaseLetters :: string where
  "lowerCaseLetters =
     ''abcdefghijklmnopqrstuvwxyz'' @
     [CHR 0xE0, CHR 0xE1, CHR 0xE2, CHR 0xE3, CHR 0xE4, CHR 0xE5, CHR 0xE6, CHR 0xE7,
      CHR 0xE8, CHR 0xE9, CHR 0xEA, CHR 0xEB, CHR 0xEC, CHR 0xED, CHR 0xEE, CHR 0xEF,
      CHR 0xF0, CHR 0xF1, CHR 0xF2, CHR 0xF3, CHR 0xF4, CHR 0xF5, CHR 0xF6,
      CHR 0xF8, CHR 0xF9, CHR 0xFA, CHR 0xFB, CHR 0xFC, CHR 0xFD, CHR 0xFE]"

definition toLowerChar :: "char \<Rightarrow> char" where
  "toLowerChar c =
     (case map_of (zip upperCaseLetters lowerCaseLetters) c of
        None \<Rightarrow> c
      | Some l \<Rightarrow> l)"

text \<open>\<^verbatim>\<open>s.toLowerCase()\<close>\<close>

definition toLowerCase :: "string \<Rightarrow> string" where
  "toLowerCase s = map toLowerChar s"

text \<open>\<^verbatim>\<open>s.replace(/\s+/g, '')\<close>: every run of white space is removed.\<close>

definition removeWhiteSpace :: "string \<Rightarrow> string" where
  "removeWhiteSpace s = filter (\<lambda>c. \<not> isWhiteSpace c) s"

text \<open>\<^verbatim>\<open>s.trim()\<close>\<close>

definition trim :: "string \<Rightarrow> string" where
  "trim s = rev (dropWhile isWhiteSpace (rev (dropWhile isWhiteSpace s)))"

text \<open>
  \<^verbatim>\<open>parseInt(s)\<close> with no radix: leading white space is skipped, one sign is read, a
  prefix \<^verbatim>\<open>0x\<close> or \<^verbatim>\<open>0X\<close> selects radix 16, and the longest run of digits of the radix
  is the value; whatever follows is ignored. No digit at all gives \<^verbatim>\<open>NaN\<close>. The value
  is the mathematical integer: the rounding to a double that JavaScript applies is
  monotone and exact up to \<open>2^53\<close>, so the comparisons with 0 and 960 made on the result
  are those of the integer.
\<close>

definition digitValue :: "char \<Rightarrow> nat option" where
  "digitValue c =
     map_of (zip ''0123456789abcdefABCDEF''
                 [0, 1, 2, 3, 4, 5, 6, 7, 8, 9, 10, 11, 12, 13, 14, 15, 10, 11, 12, 13, 14, 15]) c"

definition isRadixDigit :: "nat \<Rightarrow> char \<Rightarrow> bool" where
  "isRadixDigit R c = (case digitValue c of None \<Rightarrow> False | Some d \<Rightarrow> d < R)"

definition radixValue :: "nat \<Rightarrow> string \<Rightarrow> nat" where
  "radixValue R z = foldl (\<lambda>a c. a * R + the (digitValue c)) 0 z"

definition parseInt :: "string \<Rightarrow> int option" where
  "parseInt inputString =
     (let S = dropWhile isWhiteSpace inputString;
          sign = (if S \<noteq> [] \<and> hd S = CHR ''-'' then - 1 else 1 :: int);
          S1 = (if S \<noteq> [] \<and> (hd S = CHR ''+'' \<or> hd S = CHR ''-'') then tl S else S);
          hex = (2 \<le> length S1 \<and> (take 2 S1 = ''0x'' \<or> take 2 S1 = ''0X''));
          R = (if hex then 16 else 10 :: nat);
          S2 = (if hex then drop 2 S1 else S1);
          Z = takeWhile (isRadixDigit R) S2
      in if Z = [] then None else Some (sign * int (radixValue R Z)))"

text \<open>\<^verbatim>\<open>String(n)\<close> for an integer \<open>n\<close> (below \<open>10^21\<close> in size): plain decimal digits.\<close>

fun digitsOf :: "nat \<Rightarrow> string" where
  "digitsOf n =
     (if n < 10 then [char_of (48 + n)] else digitsOf (n div 10) @ [char_of (48 + n mod 10)])"

declare digitsOf.simps [simp del]

definition numberToString :: "int \<Rightarrow> string" where
  "numberToString n = (if n < 0 then CHR ''-'' # digitsOf (nat (- n)) else digitsOf (nat n))"

text \<open>\<^verbatim>\<open>xs.join(sep)\<close> on an array of strings.\<close>

fun join :: "string \<Rightarrow> string list \<Rightarrow> string" where
  "join sep [] = []"
| "join sep [x] = x"
| "join sep (x # y # ys) = x @ sep @ join sep (y # ys)"

text \<open>The truthiness test \<^verbatim>\<open>!x\<close> on a string that may be \<^verbatim>\<open>undefined\<close>.\<close>

definition falsy :: "string option \<Rightarrow> bool" where
  "falsy x \<longleftrightarrow> x = None \<or> x = Some []"

subsection \<open>ImportModal.tsx\<close>

text \<open>
  A parsed CSV row is an object from column keys to cell texts. It is kept as the list of
  its entries in insertion order, which is the order \<^verbatim>\<open>Object.keys\<close> enumerates the
  keys that can match an alias (keys that are array indices are enumerated first, and no
  alias is one).
\<close>

type_synonym CSVRow = "(string \<times> string) list"

definition Object_keys :: "CSVRow \<Rightarrow> string list" where
  "Object_keys row = map fst row"

definition EXPECTED_name :: "string list" where
  "EXPECTED_name = [''name'', ''client name'', ''clientname'', ''client'']"

definition EXPECTED_clinician :: "string list" where
  "EXPECTED_clinician = [''clinician'', ''assigned clinician'', ''assignedclinician'']"

definition EXPECTED_assignedDate :: "string list" where
  "EXPECTED_assignedDate = [''assigned date'', ''assigneddate'', ''date'', ''assignment date'']"

definition EXPECTED_unitsUsed :: "string list" where
  "EXPECTED_unitsUsed = [''units'', ''units used'', ''unitsused'']"

definition EXPECTED_status :: "string list" where
  "EXPECTED_status = [''status'', ''client status'']"

definition findMatchingHeader :: "string list \<Rightarrow> CSVRow \<Rightarrow> string option" where
  "findMatchingHeader headers row =
     (let headerLower = map toLowerCase headers
      in find (\<lambda>key. removeWhiteSpace (toLowerCase key) \<in> set headerLower) (Object_keys row))"

datatype row_error = MissingColumns | MissingFields | InvalidUnits | InvalidStatus | InvalidDate

text \<open>\<^verbatim>\<open>row[header]?.trim()\<close>\<close>

definition cell :: "CSVRow \<Rightarrow> string \<Rightarrow> string option" where
  "cell row header = map_option trim (map_of row header)"

text \<open>
  The body of the \<^verbatim>\<open>forEach\<close> callback of \<^verbatim>\<open>parseCSV\<close> for the row at \<open>index\<close>: the
  error it pushes, or the client it pushes. Each \<^verbatim>\<open>return\<close> after a push is a branch.
\<close>

definition validateRow :: "js_env \<Rightarrow> nat \<Rightarrow> CSVRow \<Rightarrow> row_error + client" where
  "validateRow env index row =
     (let nameHeader = findMatchingHeader EXPECTED_name row;
          clinicianHeader = findMatchingHeader EXPECTED_clinician row;
          dateHeader = findMatchingHeader EXPECTED_assignedDate row;
          unitsHeader = findMatchingHeader EXPECTED_unitsUsed row;
          statusHeader = findMatchingHeader EXPECTED_status row
      in if falsy nameHeader \<or> falsy clinicianHeader \<or> falsy dateHeader
            \<or> falsy unitsHeader \<or> falsy statusHeader
         then Inl MissingColumns
         else
           let name' = cell row (the nameHeader);
               clinician' = cell row (the clinicianHeader);
               assignedDate' = cell row (the dateHeader);
               unitsUsed' = cell row (the unitsHeader);
               status' = cell row (the statusHeader)
           in if falsy name' \<or> falsy clinician' \<or> falsy assignedDate'
                 \<or> falsy unitsUsed' \<or> falsy status'
              then Inl MissingFields
              else
                (case parseInt (the unitsUsed') of
                   None \<Rightarrow> Inl InvalidUnits
                 | Some units \<Rightarrow>
                     if units < 0 \<or> units > 960 then Inl InvalidUnits
                     else if the status' \<notin> set CLIENT_STATUSES then Inl InvalidStatus
                     else
                       (case dateParse env (the assignedDate') of
                          None \<Rightarrow> Inl InvalidDate
                        | Some date \<Rightarrow>
                            Inr \<lparr>id_client = randomUUID env index,
                                 name = the name',
                                 clinician = the clinician',
                                 assignedDate = toISOString env date,
                                 unitsUsed = units,
                                 status = the status',
                                 lastUpdated = nowISO env index\<rparr>)))"

text \<open>The message pushed for an error of the row at \<open>index\<close>.\<close>

definition errorMessage :: "nat \<Rightarrow> row_error \<Rightarrow> string" where
  "errorMessage index e =
     ''Row '' @ numberToString (int index + 1) @ '': '' @
     (case e of
        MissingColumns \<Rightarrow>
          ''Missing or invalid column headers. Required columns: Name, Assigned Clinician, Assigned Date, Units Used, Status''
      | MissingFields \<Rightarrow> ''Missing required fields''
      | InvalidUnits \<Rightarrow> ''Invalid units (must be between 0-960)''
      | InvalidStatus \<Rightarrow> ''Invalid status. Must be one of: '' @ join '', '' CLIENT_STATUSES
      | InvalidDate \<Rightarrow> ''Invalid date format. Use YYYY-MM-DD or MM/DD/YYYY'')"

text \<open>
  \<^verbatim>\<open>results.data.forEach((row, index) => ...)\<close> from \<open>index\<close> on, with the two arrays
  \<^verbatim>\<open>parsedClients\<close> and \<^verbatim>\<open>errors\<close> it pushes to.
\<close>

fun forEachRow ::
  "js_env \<Rightarrow> nat \<Rightarrow> CSVRow list \<Rightarrow> client list \<times> string list \<Rightarrow> client list \<times> string list" where
  "forEachRow env index [] acc = acc"
| "forEachRow env index (row # rows) (parsedClients, errors) =
     (case validateRow env index row of
        Inl e \<Rightarrow> forEachRow env (Suc index) rows (parsedClients, errors @ [errorMessage index e])
      | Inr c \<Rightarrow> forEachRow env (Suc index) rows (parsedClients @ [c], errors))"

text \<open>The two pieces of state of the modal that \<^verbatim>\<open>parseCSV\<close> sets.\<close>

record import_state =
  preview :: "client list"
  error :: string

text \<open>The \<^verbatim>\<open>complete\<close> callback of \<^verbatim>\<open>parseCSV\<close>, on the rows the CSV parser delivers.\<close>

definition parseCSV :: "js_env \<Rightarrow> CSVRow list \<Rightarrow> import_state" where
  "parseCSV env data =
     (let (parsedClients, errors) = forEachRow env 0 data ([], [])
      in if length errors > 0
         then \<lparr>preview = [], error = join [CHR 0x0A] errors\<rparr>
         else \<lparr>preview = parsedClients, error = []\<rparr>)"

text \<open>
  \<^verbatim>\<open>handleImport\<close>, with \<^verbatim>\<open>onImport\<close> bound to \<^verbatim>\<open>handleImportClients\<close> as \<^verbatim>\<open>App\<close> binds
  it: the roster and the modal state after the click.
\<close>

definition handleImport :: "import_state \<Rightarrow> client list \<Rightarrow> client list \<times> import_state" where
  "handleImport st clients =
     (if length (preview st) > 0
      then (handleImportClients clients (preview st), \<lparr>preview = [], error = []\<rparr>)
      else (clients, st))"

subsection \<open>The component \<^verbatim>\<open>App\<close>: export\<close>

definition exportHeader :: "string list" where
  "exportHeader =
     [''Name'', ''Assigned Clinician'', ''Assigned Date'', ''Units Used'', ''Status'', ''Last Updated'']"

definition exportRow :: "js_env \<Rightarrow> client \<Rightarrow> string list" where
  "exportRow env c =
     [name c,
      clinician c,
      localeDateOf env (assignedDate c),
      numberToString (unitsUsed c),
      status c,
      localeDateOf env (lastUpdated c)]"

text \<open>The text \<^verbatim>\<open>csvContent\<close> that \<^verbatim>\<open>handleExport\<close> puts into the downloaded file.\<close>

definition handleExport :: "js_env \<Rightarrow> client list \<Rightarrow> string" where
  "handleExport env clients =
     join [CHR 0x0A] (map (join '','') ([exportHeader] @ map (exportRow env) clients))"

subsection \<open>ClientTable.tsx: the units input\<close>

text \<open>
  \<^verbatim>\<open>onChange\<close> of the units input of the row of client \<open>i\<close>, with \<^verbatim>\<open>onUnitsChange\<close> bound
  to \<^verbatim>\<open>handleUnitsChange\<close>: \<^verbatim>\<open>Math.max(0, Math.min(960, parseInt(e.target.value) || 0))\<close>.
\<close>

definition unitsInputValue :: "string \<Rightarrow> int" where
  "unitsInputValue v = max 0 (min 960 (case parseInt v of None \<Rightarrow> 0 | Some n \<Rightarrow> n))"

definition unitsInput_onChange :: "js_env \<Rightarrow> client list \<Rightarrow> string \<Rightarrow> string \<Rightarrow> client list" where
  "unitsInput_onChange env clients i v = handleUnitsChange env clients i (unitsInputValue v)"

subsection \<open>Sample data\<close>

text \<open>
  A browser environment on the two dates the examples use: the values the date functions
  take there in the \<^verbatim>\<open>en-US\<close> locale and the UTC time zone.
\<close>

definition sampleEnv :: js_env where
  "sampleEnv =
     \<lparr>dateParse = (\<lambda>s.
         if s = ''2024-01-05'' \<or> s = ''2024-01-05T00:00:00.000Z'' then Some 1704412800000
         else if s = ''2024-03-20'' \<or> s = ''2024-03-20T00:00:00.000Z'' then Some 1710892800000
         else None),
      toISOString = (\<lambda>t.
         if t = 1704412800000 then ''2024-01-05T00:00:00.000Z''
         else ''2024-03-20T00:00:00.000Z''),
      toLocaleDateString = (\<lambda>t. if t = 1704412800000 then ''1/5/2024'' else ''3/20/2024''),
      currentTime = (\<lambda>k. 1710892800000),
      randomUUID = (\<lambda>k. ''id-'' @ numberToString (int k))\<rparr>"

definition sampleClient :: "string \<Rightarrow> string \<Rightarrow> int \<Rightarrow> client" where
  "sampleClient i n u =
     \<lparr>id_client = i, name = n, clinician = ''Dr. Smith'',
      assignedDate = ''2024-01-05T00:00:00.000Z'', unitsUsed = u,
      status = ''Newly Assigned'', lastUpdated = ''2024-01-05T00:00:00.000Z''\<rparr>"

definition sampleRoster :: "client list" where
  "sampleRoster = [sampleClient ''a'' ''Jane'' 100, sampleClient ''b'' ''John'' 120,
                   sampleClient ''a'' ''Joan'' 960]"

definition sampleRow :: "string \<Rightarrow> string \<Rightarrow> string \<Rightarrow> CSVRow" where
  "sampleRow n u s =
     [(''Name'', n), (''Assigned Clinician'', '' Dr. X''), (''Assigned Date'', '' 2024-01-05''),
      (''Units Used'', u), (''Status'', s)]"

text \<open>
  A row under headers that read like aliases but are not matched: \<open>Assignment Date\<close> and
  \<open>Client Status\<close> lose their space before the comparison, the aliases keep theirs.
\<close>

definition badHeaderRow :: CSVRow where
  "badHeaderRow =
     [(''Client Name'', ''Jane''), (''Assigned Clinician'', ''Dr. X''),
      (''Assignment Date'', ''2024-01-05''), (''Units Used'', ''100''),
      (''Client Status'', ''Newly Assigned'')]"

text \<open>
  The two-row scenario of the specification: a valid first row, 1000 units in the second.
\<close>

definition mixedData :: "CSVRow list" where
  "mixedData = [sampleRow ''Jane'' '' 100'' '' Newly Assigned'',
                sampleRow ''John'' '' 1000'' '' Newly Assigned'']"

text \<open>Two rows that pass every check; the units of the second are written with a fraction.\<close>

definition validData :: "CSVRow list" where
  "validData = [sampleRow ''Jane'' '' 100'' '' Newly Assigned'',
                sampleRow ''Doe, John'' ''12.7'' ''Newly Assigned'']"

text \<open>
  The same browser in the time zone \<^verbatim>\<open>America/New_York\<close>. A date-only ISO text is parsed
  as midnight UTC, the ISO rendering is in UTC, and the locale rendering is in local time,
  five hours behind UTC on the first date and four on the second.
\<close>

definition westEnv :: js_env where
  "westEnv =
     \<lparr>dateParse = (\<lambda>s.
         if s = ''2024-01-05'' \<or> s = ''2024-01-05T00:00:00.000Z'' then Some 1704412800000
         else if s = ''2024-03-20'' \<or> s = ''2024-03-20T00:00:00.000Z'' then Some 1710892800000
         else None),
      toISOString = (\<lambda>t.
         if t = 1704412800000 then ''2024-01-05T00:00:00.000Z''
         else ''2024-03-20T00:00:00.000Z''),
      toLocaleDateString = (\<lambda>t. if t = 1704412800000 then ''1/4/2024'' else ''3/19/2024''),
      currentTime = (\<lambda>k. 1710892800000),
      randomUUID = (\<lambda>k. ''id-'' @ numberToString (int k))\<rparr>"

subsection \<open>Notions used to state the properties\<close>

text \<open>The bound on \<open>unitsUsed\<close> of the data model, on every record of a roster.\<close>

definition unitsInRange :: "client list \<Rightarrow> bool" where
  "unitsInRange clients = list_all (\<lambda>c. 0 \<le> unitsUsed c \<and> unitsUsed c \<le> 960) clients"

text \<open>
  The resolved value of a logical field in a row: the trimmed cell under the first column
  key that matches one of the field's aliases, \<open>None\<close> when no key matches.
\<close>

definition resolved :: "string list \<Rightarrow> CSVRow \<Rightarrow> string option" where
  "resolved headers row =
     (case findMatchingHeader headers row of None \<Rightarrow> None | Some h \<Rightarrow> cell row h)"

text \<open>The checks of a row, each stated on the resolved values alone.\<close>

definition columnsResolved :: "CSVRow \<Rightarrow> bool" where
  "columnsResolved row \<longleftrightarrow>
     findMatchingHeader EXPECTED_name row \<noteq> None \<and>
     findMatchingHeader EXPECTED_clinician row \<noteq> None \<and>
     findMatchingHeader EXPECTED_assignedDate row \<noteq> None \<and>
     findMatchingHeader EXPECTED_unitsUsed row \<noteq> None \<and>
     findMatchingHeader EXPECTED_status row \<noteq> None"

definition present :: "string option \<Rightarrow> bool" where
  "present x = (case x of None \<Rightarrow> False | Some v \<Rightarrow> v \<noteq> [])"

definition valuesPresent :: "CSVRow \<Rightarrow> bool" where
  "valuesPresent row \<longleftrightarrow>
     present (resolved EXPECTED_name row) \<and>
     present (resolved EXPECTED_clinician row) \<and>
     present (resolved EXPECTED_assignedDate row) \<and>
     present (resolved EXPECTED_unitsUsed row) \<and>
     present (resolved EXPECTED_status row)"

definition unitsAccepted :: "CSVRow \<Rightarrow> bool" where
  "unitsAccepted row =
     (case resolved EXPECTED_unitsUsed row of
        None \<Rightarrow> False
      | Some u \<Rightarrow> (case parseInt u of None \<Rightarrow> False | Some n \<Rightarrow> 0 \<le> n \<and> n \<le> 960))"

definition statusAccepted :: "CSVRow \<Rightarrow> bool" where
  "statusAccepted row =
     (case resolved EXPECTED_status row of
        None \<Rightarrow> False
      | Some s \<Rightarrow> s \<in> set CLIENT_STATUSES)"

definition dateAccepted :: "js_env \<Rightarrow> CSVRow \<Rightarrow> bool" where
  "dateAccepted env row =
     (case resolved EXPECTED_assignedDate row of
        None \<Rightarrow> False
      | Some d \<Rightarrow> dateParse env d \<noteq> None)"

text \<open>The outcome of every row of the data, with its index.\<close>

definition rowResults :: "js_env \<Rightarrow> nat \<Rightarrow> CSVRow list \<Rightarrow> (nat \<times> (row_error + client)) list" where
  "rowResults env k data = map (\<lambda>(j, row). (j, validateRow env j row)) (enumerate k data)"

definition pushedError :: "nat \<times> (row_error + client) \<Rightarrow> string option" where
  "pushedError r = (case snd r of Inl e \<Rightarrow> Some (errorMessage (fst r) e) | Inr c \<Rightarrow> None)"

definition pushedClient :: "nat \<times> (row_error + client) \<Rightarrow> client option" where
  "pushedClient r = (case snd r of Inl e \<Rightarrow> None | Inr c \<Rightarrow> Some c)"

section \<open>Properties\<close>

subsection \<open>Delete\<close>

lemma handleDeleteClient_absent:
  "i \<notin> id_client ` set clients \<Longrightarrow> handleDeleteClient clients i = clients"
  unfolding handleDeleteClient_def by (induction clients) auto

text \<open>
  Claim C10. For every roster and every id, deleting removes exactly the records whose id
  is the given one, all of them when several records share it: no record of the result
  has that id, every other record occurs in the result as often as before, and the result
  is a subsequence of the roster, so the remaining records keep their relative order and
  all their field values. When no record has the id the roster is returned unchanged.
\<close>

theorem handleDeleteClient_exact:
  "(\<forall>c. c \<in> set (handleDeleteClient clients i) \<longleftrightarrow> c \<in> set clients \<and> id_client c \<noteq> i)
   \<and> (\<forall>c. id_client c \<noteq> i \<longrightarrow>
          count_list (handleDeleteClient clients i) c = count_list clients c)
   \<and> subseq (handleDeleteClient clients i) clients
   \<and> (i \<notin> id_client ` set clients \<longrightarrow> handleDeleteClient clients i = clients)"
proof (intro conjI allI impI)
  fix c
  show "c \<in> set (handleDeleteClient clients i) \<longleftrightarrow> c \<in> set clients \<and> id_client c \<noteq> i"
    by (auto simp: handleDeleteClient_def)
next
  fix c :: client
  assume "id_client c \<noteq> i"
  then show "count_list (handleDeleteClient clients i) c = count_list clients c"
    unfolding handleDeleteClient_def by (induction clients) auto
next
  show "subseq (handleDeleteClient clients i) clients"
    by (simp add: handleDeleteClient_def)
next
  assume "i \<notin> id_client ` set clients"
  then show "handleDeleteClient clients i = clients"
    by (rule handleDeleteClient_absent)
qed

theorem handleDeleteClient_exact_witness:
  "''z'' \<notin> id_client ` set sampleRoster \<and> handleDeleteClient sampleRoster ''z'' = sampleRoster \<and>
   id_client (sampleClient ''b'' ''John'' 120) \<noteq> ''a'' \<and>
   count_list (handleDeleteClient sampleRoster ''a'') (sampleClient ''b'' ''John'' 120)
     = count_list sampleRoster (sampleClient ''b'' ''John'' 120) \<and>
   sampleClient ''a'' ''Jane'' 100 \<notin> set (handleDeleteClient sampleRoster ''a'')"
proof -
  have a: "''z'' \<notin> id_client ` set sampleRoster"
    by (simp add: sampleRoster_def sampleClient_def)
  have b: "id_client (sampleClient ''b'' ''John'' 120) \<noteq> ''a''"
    by (simp add: sampleClient_def)
  have c: "\<not> (sampleClient ''a'' ''Jane'' 100 \<in> set sampleRoster \<and>
               id_client (sampleClient ''a'' ''Jane'' 100) \<noteq> ''a'')"
    by (simp add: sampleClient_def)
  from a handleDeleteClient_exact [of sampleRoster "''z''"]
  have 1: "handleDeleteClient sampleRoster ''z'' = sampleRoster" by blast
  from b handleDeleteClient_exact [of sampleRoster "''a''"]
  have 2: "count_list (handleDeleteClient sampleRoster ''a'') (sampleClient ''b'' ''John'' 120)
             = count_list sampleRoster (sampleClient ''b'' ''John'' 120)" by blast
  from c handleDeleteClient_exact [of sampleRoster "''a''"]
  have 3: "sampleClient ''a'' ''Jane'' 100 \<notin> set (handleDeleteClient sampleRoster ''a'')" by blast
  from a b 1 2 3 show ?thesis by blast
qed

subsection \<open>Updates of a record\<close>

lemma map_enumerate_unchanged:
  "(\<And>k c. c \<in> set cs \<Longrightarrow> f (k, c) = c) \<Longrightarrow> map f (enumerate n cs) = cs"
  by (induction cs arbitrary: n) auto

lemma in_map_enumerate:
  "c \<in> set (map f (enumerate n cs)) \<Longrightarrow> \<exists>k c0. c0 \<in> set cs \<and> c = f (k, c0)"
proof -
  assume "c \<in> set (map f (enumerate n cs))"
  then obtain k c0 where p: "(k, c0) \<in> set (enumerate n cs)" and c: "c = f (k, c0)"
    by auto
  from p have "c0 \<in> set cs"
    by (auto simp: in_set_enumerate_eq)
  with c show ?thesis by blast
qed

text \<open>
  Claim C8. For every roster and every id that no record of it carries, the units update
  and the status update return the roster itself: the same records with all their fields
  (\<open>lastUpdated\<close> included), in the same number and order.
\<close>

theorem update_unknown_id_noop:
  "i \<notin> id_client ` set clients \<Longrightarrow>
     handleUnitsChange env clients i units = clients \<and>
     handleStatusChange env clients i s = clients"
  unfolding handleUnitsChange_def handleStatusChange_def
  by (auto intro!: map_enumerate_unchanged)

text \<open>The scenario of the specification: an unknown id and 50 units on a roster of three.\<close>

theorem update_unknown_id_noop_witness:
  "''unknownId'' \<notin> id_client ` set sampleRoster \<and> length sampleRoster = 3 \<and>
   handleUnitsChange sampleEnv sampleRoster ''unknownId'' 50 = sampleRoster \<and>
   handleStatusChange sampleEnv sampleRoster ''unknownId'' ''Client Hospitalized'' = sampleRoster"
proof -
  have h: "''unknownId'' \<notin> id_client ` set sampleRoster"
    by (simp add: sampleRoster_def sampleClient_def)
  show ?thesis
    using h update_unknown_id_noop [OF h, of sampleEnv 50 "''Client Hospitalized''"]
    by (simp add: sampleRoster_def)
qed

subsection \<open>The bound on the units\<close>

lemma unitsInputValue_range: "0 \<le> unitsInputValue v \<and> unitsInputValue v \<le> 960"
  by (simp add: unitsInputValue_def)

lemma handleUnitsChange_stores:
  assumes "c \<in> set (handleUnitsChange env clients i u)" and "id_client c = i"
  shows "unitsUsed c = u"
proof -
  from assms(1) obtain k c0 where
    c: "c = (if id_client c0 = i then c0\<lparr>unitsUsed := u, lastUpdated := nowISO env k\<rparr> else c0)"
    unfolding handleUnitsChange_def by (drule_tac in_map_enumerate) auto
  show ?thesis
  proof (cases "id_client c0 = i")
    case True with c show ?thesis by simp
  next
    case False with c assms(2) show ?thesis by simp
  qed
qed

lemma handleUnitsChange_inRange:
  assumes "unitsInRange clients" and "0 \<le> u" and "u \<le> 960"
  shows "unitsInRange (handleUnitsChange env clients i u)"
  unfolding unitsInRange_def list_all_iff
proof
  fix c assume "c \<in> set (handleUnitsChange env clients i u)"
  then obtain k c0 where c0: "c0 \<in> set clients" and
    c: "c = (if id_client c0 = i then c0\<lparr>unitsUsed := u, lastUpdated := nowISO env k\<rparr> else c0)"
    unfolding handleUnitsChange_def by (drule_tac in_map_enumerate) auto
  from assms(1) c0 have "0 \<le> unitsUsed c0 \<and> unitsUsed c0 \<le> 960"
    by (simp add: unitsInRange_def list_all_iff)
  with c assms(2,3) show "0 \<le> unitsUsed c \<and> unitsUsed c \<le> 960"
    by (cases "id_client c0 = i") simp_all
qed

text \<open>
  Claim C4 as stated fails: \<open>handleUnitsChange\<close> stores the number it is given. On the
  sample roster, whose records are all within the bound, the update of client \<open>b\<close> to 1000
  units gives a roster that is not.
\<close>

theorem handleUnitsChange_unclamped:
  "unitsInRange sampleRoster \<and>
   \<not> unitsInRange (handleUnitsChange sampleEnv sampleRoster ''b'' 1000)"
  by code_simp

text \<open>
  Claim C4, amended. The store keeps the bound for every argument within \<open>[0, 960]\<close> and
  writes its argument unchanged into every record with the id; the clamping is done by
  the units input of the table, which passes \<open>max 0 (min 960 n)\<close> to the store for whatever
  text is typed, so every update made through the input keeps the bound.
\<close>

theorem units_bound_kept_by_view:
  "unitsInRange clients \<Longrightarrow>
     unitsInRange (unitsInput_onChange env clients i v) \<and>
     (0 \<le> u \<and> u \<le> 960 \<longrightarrow> unitsInRange (handleUnitsChange env clients i u)) \<and>
     (\<forall>c \<in> set (handleUnitsChange env clients i u). id_client c = i \<longrightarrow> unitsUsed c = u)"
  using unitsInputValue_range [of v] handleUnitsChange_stores [of _ env clients i u]
  by (simp add: unitsInput_onChange_def handleUnitsChange_inRange)

theorem units_bound_kept_by_view_witness:
  "unitsInRange sampleRoster \<and>
   unitsInRange (unitsInput_onChange sampleEnv sampleRoster ''b'' ''1000'') \<and>
   (0 \<le> (500::int) \<and> (500::int) \<le> 960) \<and>
   unitsInRange (handleUnitsChange sampleEnv sampleRoster ''b'' 500)"
proof -
  have h: "unitsInRange sampleRoster" by code_simp
  from units_bound_kept_by_view [OF h, of sampleEnv "''b''" "''1000''" 500]
  show ?thesis using h by simp
qed

subsection \<open>Import: the loop and the checks of a row\<close>

lemma forEachRow_pushes:
  "forEachRow env k data (ps, es) =
     (ps @ List.map_filter pushedClient (rowResults env k data),
      es @ List.map_filter pushedError (rowResults env k data))"
proof (induction data arbitrary: k ps es)
  case Nil
  show ?case by (simp add: rowResults_def)
next
  case (Cons row data)
  have rr: "rowResults env k (row # data) = (k, validateRow env k row) # rowResults env (Suc k) data"
    by (simp add: rowResults_def)
  show ?case
    by (cases "validateRow env k row")
       (simp_all add: rr Cons.IH pushedClient_def pushedError_def)
qed

lemma toLowerCase_Nil: "toLowerCase h = [] \<longleftrightarrow> h = []"
  by (simp add: toLowerCase_def)

lemma findMatchingHeader_Some:
  "findMatchingHeader headers row = Some k \<Longrightarrow>
     k \<in> set (Object_keys row) \<and> removeWhiteSpace (toLowerCase k) \<in> set (map toLowerCase headers)"
  unfolding findMatchingHeader_def Let_def find_Some_iff by auto

lemma findMatchingHeader_None:
  "findMatchingHeader headers row = None \<longleftrightarrow>
     (\<forall>key \<in> set (Object_keys row). removeWhiteSpace (toLowerCase key) \<notin> set (map toLowerCase headers))"
  unfolding findMatchingHeader_def Let_def find_None_iff by auto

lemma findMatchingHeader_nonempty:
  assumes "[] \<notin> set headers" and "findMatchingHeader headers row = Some k"
  shows "k \<noteq> []"
proof
  assume "k = []"
  with findMatchingHeader_Some [OF assms(2)]
  have "[] \<in> set (map toLowerCase headers)"
    by (simp add: removeWhiteSpace_def toLowerCase_def)
  then obtain h where "h \<in> set headers" "toLowerCase h = []" by auto
  with assms(1) show False by (simp add: toLowerCase_Nil)
qed

lemma falsy_header:
  "[] \<notin> set headers \<Longrightarrow> falsy (findMatchingHeader headers row) \<longleftrightarrow> findMatchingHeader headers row = None"
  using findMatchingHeader_nonempty [of headers row] by (auto simp: falsy_def)

lemma EXPECTED_nonempty:
  "[] \<notin> set EXPECTED_name" "[] \<notin> set EXPECTED_clinician" "[] \<notin> set EXPECTED_assignedDate"
  "[] \<notin> set EXPECTED_unitsUsed" "[] \<notin> set EXPECTED_status"
  by (simp_all add: EXPECTED_name_def EXPECTED_clinician_def EXPECTED_assignedDate_def
        EXPECTED_unitsUsed_def EXPECTED_status_def)

lemma falsy_headers:
  "(falsy (findMatchingHeader EXPECTED_name row) \<or> falsy (findMatchingHeader EXPECTED_clinician row)
    \<or> falsy (findMatchingHeader EXPECTED_assignedDate row) \<or> falsy (findMatchingHeader EXPECTED_unitsUsed row)
    \<or> falsy (findMatchingHeader EXPECTED_status row)) \<longleftrightarrow> \<not> columnsResolved row"
  by (simp add: falsy_header EXPECTED_nonempty columnsResolved_def)

lemma cell_resolved:
  "findMatchingHeader headers row \<noteq> None \<Longrightarrow>
     cell row (the (findMatchingHeader headers row)) = resolved headers row"
  by (auto simp: resolved_def)

lemma falsy_present: "falsy x \<longleftrightarrow> \<not> present x"
  by (cases x) (simp_all add: falsy_def present_def)

lemma validateRow_unfold:
  "validateRow env index row =
     (if \<not> columnsResolved row then Inl MissingColumns
      else if \<not> valuesPresent row then Inl MissingFields
      else (case parseInt (the (resolved EXPECTED_unitsUsed row)) of
              None \<Rightarrow> Inl InvalidUnits
            | Some units \<Rightarrow>
                if units < 0 \<or> units > 960 then Inl InvalidUnits
                else if the (resolved EXPECTED_status row) \<notin> set CLIENT_STATUSES then Inl InvalidStatus
                else (case dateParse env (the (resolved EXPECTED_assignedDate row)) of
                        None \<Rightarrow> Inl InvalidDate
                      | Some date \<Rightarrow>
                          Inr \<lparr>id_client = randomUUID env index,
                               name = the (resolved EXPECTED_name row),
                               clinician = the (resolved EXPECTED_clinician row),
                               assignedDate = toISOString env date,
                               unitsUsed = units,
                               status = the (resolved EXPECTED_status row),
                               lastUpdated = nowISO env index\<rparr>)))"
proof (cases "columnsResolved row")
  case False
  then show ?thesis
    unfolding validateRow_def Let_def falsy_headers by simp
next
  case True
  then have c: "cell row (the (findMatchingHeader EXPECTED_name row)) = resolved EXPECTED_name row"
    "cell row (the (findMatchingHeader EXPECTED_clinician row)) = resolved EXPECTED_clinician row"
    "cell row (the (findMatchingHeader EXPECTED_assignedDate row)) = resolved EXPECTED_assignedDate row"
    "cell row (the (findMatchingHeader EXPECTED_unitsUsed row)) = resolved EXPECTED_unitsUsed row"
    "cell row (the (findMatchingHeader EXPECTED_status row)) = resolved EXPECTED_status row"
    by (simp_all add: columnsResolved_def cell_resolved)
  show ?thesis
    unfolding validateRow_def Let_def falsy_headers c
    using True by (simp add: falsy_present valuesPresent_def)
qed

lemma validateRow_Inl_iff:
  "validateRow env index row = Inl MissingColumns \<longleftrightarrow> \<not> columnsResolved row"
  "validateRow env index row = Inl MissingFields \<longleftrightarrow> columnsResolved row \<and> \<not> valuesPresent row"
  "validateRow env index row = Inl InvalidUnits \<longleftrightarrow>
     columnsResolved row \<and> valuesPresent row \<and> \<not> unitsAccepted row"
  "validateRow env index row = Inl InvalidStatus \<longleftrightarrow>
     columnsResolved row \<and> valuesPresent row \<and> unitsAccepted row \<and> \<not> statusAccepted row"
  "validateRow env index row = Inl InvalidDate \<longleftrightarrow>
     columnsResolved row \<and> valuesPresent row \<and> unitsAccepted row \<and> statusAccepted row
     \<and> \<not> dateAccepted env row"
  "(\<exists>c. validateRow env index row = Inr c) \<longleftrightarrow>
     columnsResolved row \<and> valuesPresent row \<and> unitsAccepted row \<and> statusAccepted row
     \<and> dateAccepted env row"
  unfolding validateRow_unfold [of env index row]
  by (auto simp: valuesPresent_def present_def unitsAccepted_def statusAccepted_def dateAccepted_def
           split: option.splits)

lemma length_rowResults: "length (rowResults env k data) = length data"
  by (simp add: rowResults_def)

lemma CLIENT_STATUSES_iff:
  "s \<in> set CLIENT_STATUSES \<longleftrightarrow>
     s = ''New Authorization'' \<or> s = ''Current Authorization'' \<or>
     s = ''Current Authorization (New LBS)'' \<or> s = ''Newly Assigned'' \<or>
     s = ''Client Hospitalized'' \<or> s = ''Frequent Caregiver Cancellations''"
  unfolding CLIENT_STATUSES_def by (simp only: list.set insert_iff empty_iff simp_thms)

text \<open>
  Claim C7. The status of a row (its resolved value, trimmed) is accepted exactly when it
  is, character for character, one of the six literals of \<open>CLIENT_STATUSES\<close>: a row that
  passed the earlier checks is rejected with \<open>InvalidStatus\<close> iff its status is not in
  the list, membership in the list is equality with one of the six literals, and an
  accepted row stores that literal. The lowercase \<open>new authorization\<close> is not in the list.
\<close>

theorem status_exact_match:
  "(s \<in> set CLIENT_STATUSES \<longleftrightarrow>
     s = ''New Authorization'' \<or> s = ''Current Authorization'' \<or>
     s = ''Current Authorization (New LBS)'' \<or> s = ''Newly Assigned'' \<or>
     s = ''Client Hospitalized'' \<or> s = ''Frequent Caregiver Cancellations'') \<and>
   ''new authorization'' \<notin> set CLIENT_STATUSES \<and>
   (columnsResolved row \<and> valuesPresent row \<and> unitsAccepted row \<longrightarrow>
      (validateRow env index row = Inl InvalidStatus \<longleftrightarrow>
         the (resolved EXPECTED_status row) \<notin> set CLIENT_STATUSES)) \<and>
   (\<forall>c. validateRow env index row = Inr c \<longrightarrow>
      resolved EXPECTED_status row = Some (status c) \<and> status c \<in> set CLIENT_STATUSES)"
proof -
  have 1: "''new authorization'' \<notin> set CLIENT_STATUSES"
    by (simp add: CLIENT_STATUSES_def)
  have 2: "validateRow env index row = Inl InvalidStatus \<longleftrightarrow>
         the (resolved EXPECTED_status row) \<notin> set CLIENT_STATUSES"
    if a: "columnsResolved row \<and> valuesPresent row \<and> unitsAccepted row"
  proof -
    from a have "present (resolved EXPECTED_status row)" by (simp add: valuesPresent_def)
    then have "statusAccepted row \<longleftrightarrow> the (resolved EXPECTED_status row) \<in> set CLIENT_STATUSES"
      by (auto simp: statusAccepted_def present_def split: option.splits)
    with a show ?thesis by (simp add: validateRow_Inl_iff)
  qed
  have 3: "resolved EXPECTED_status row = Some (status c) \<and> status c \<in> set CLIENT_STATUSES"
    if r: "validateRow env index row = Inr c" for c
  proof -
    from r have "\<exists>c. validateRow env index row = Inr c" by blast
    then have v: "valuesPresent row" and st: "statusAccepted row" and cr: "columnsResolved row"
      by (simp_all add: validateRow_Inl_iff)
    from v have p: "present (resolved EXPECTED_status row)" by (simp add: valuesPresent_def)
    from r cr v have "status c = the (resolved EXPECTED_status row)"
      unfolding validateRow_unfold [of env index row]
      by (auto split: option.splits if_splits)
    with p st show ?thesis
      by (auto simp: statusAccepted_def present_def split: option.splits)
  qed
  from 1 2 3 CLIENT_STATUSES_iff [of s] show ?thesis by blast
qed

text \<open>
  The lowercase status is rejected, while the column key \<open>STATUS\<close> in capitals is matched;
  a status cell that is a literal between a space and a no-break space is accepted, as the
  literal.
\<close>

theorem status_exact_match_witness:
  "columnsResolved (sampleRow ''Jane'' ''100'' ''new authorization'') \<and>
   valuesPresent (sampleRow ''Jane'' ''100'' ''new authorization'') \<and>
   unitsAccepted (sampleRow ''Jane'' ''100'' ''new authorization'') \<and>
   the (resolved EXPECTED_status (sampleRow ''Jane'' ''100'' ''new authorization''))
     \<notin> set CLIENT_STATUSES \<and>
   validateRow sampleEnv 0 (sampleRow ''Jane'' ''100'' ''new authorization'') = Inl InvalidStatus \<and>
   findMatchingHeader EXPECTED_status [(''STATUS'', ''new authorization'')] = Some ''STATUS'' \<and>
   validateRow sampleEnv 0 (sampleRow ''Jane'' ''100'' ('' Newly Assigned'' @ [CHR 0xA0])) =
     Inr \<lparr>id_client = ''id-0'', name = ''Jane'', clinician = ''Dr. X'',
          assignedDate = ''2024-01-05T00:00:00.000Z'', unitsUsed = 100,
          status = ''Newly Assigned'', lastUpdated = ''2024-03-20T00:00:00.000Z''\<rparr> \<and>
   resolved EXPECTED_status (sampleRow ''Jane'' ''100'' ('' Newly Assigned'' @ [CHR 0xA0]))
     = Some ''Newly Assigned''"
proof -
  let ?row = "sampleRow ''Jane'' ''100'' ''new authorization''"
  let ?ok = "sampleRow ''Jane'' ''100'' ('' Newly Assigned'' @ [CHR 0xA0])"
  let ?c = "\<lparr>id_client = ''id-0'', name = ''Jane'', clinician = ''Dr. X'',
          assignedDate = ''2024-01-05T00:00:00.000Z'', unitsUsed = 100,
          status = ''Newly Assigned'', lastUpdated = ''2024-03-20T00:00:00.000Z''\<rparr>"
  have a: "columnsResolved ?row \<and> valuesPresent ?row \<and> unitsAccepted ?row" by code_simp
  have b: "the (resolved EXPECTED_status ?row) \<notin> set CLIENT_STATUSES" by code_simp
  have c: "findMatchingHeader EXPECTED_status [(''STATUS'', ''new authorization'')] = Some ''STATUS''"
    by code_simp
  have d: "validateRow sampleEnv 0 ?ok = Inr ?c" by code_simp
  from status_exact_match [of _ ?row sampleEnv 0] a b
  have 1: "validateRow sampleEnv 0 ?row = Inl InvalidStatus" by blast
  from status_exact_match [of _ ?ok sampleEnv 0] d
  have "resolved EXPECTED_status ?ok = Some (status ?c)" by blast
  then have 2: "resolved EXPECTED_status ?ok = Some ''Newly Assigned''" by simp
  from a b c d 1 2 show ?thesis by blast
qed

subsection \<open>Header resolution\<close>

lemma toLowerChar_whiteSpace: "isWhiteSpace c \<Longrightarrow> toLowerChar c = c"
proof -
  have f: "toLowerChar (CHR 0x09) = CHR 0x09" "toLowerChar (CHR 0x0A) = CHR 0x0A"
    "toLowerChar (CHR 0x0B) = CHR 0x0B" "toLowerChar (CHR 0x0C) = CHR 0x0C"
    "toLowerChar (CHR 0x0D) = CHR 0x0D" "toLowerChar (CHR '' '') = CHR '' ''"
    "toLowerChar (CHR 0xA0) = CHR 0xA0"
    by code_simp+
  assume "isWhiteSpace c"
  then have "c = CHR 0x09 \<or> c = CHR 0x0A \<or> c = CHR 0x0B \<or> c = CHR 0x0C \<or> c = CHR 0x0D
      \<or> c = CHR '' '' \<or> c = CHR 0xA0"
    by (simp add: isWhiteSpace_def)
  then show ?thesis
    by (elim disjE) (simp_all only: f)
qed

lemma alias_with_space_unmatched:
  assumes "c \<in> set a" and "isWhiteSpace c"
  shows "removeWhiteSpace (toLowerCase key) \<noteq> toLowerCase a"
proof
  assume eq: "removeWhiteSpace (toLowerCase key) = toLowerCase a"
  from assms have "c \<in> set (toLowerCase a)"
    using toLowerChar_whiteSpace [OF assms(2)] by (force simp: toLowerCase_def)
  with eq have "c \<in> set (removeWhiteSpace (toLowerCase key))" by simp
  with assms(2) show False by (simp add: removeWhiteSpace_def)
qed

text \<open>
  Claim C2. Header resolution is asymmetric. A column key matches a field exactly when
  the key, lowercased and with all white space removed (the no-break space included), is
  a member of the field's alias list, lowercased only: no key of the row is returned iff none matches, and a returned
  key is a key of the row that matches. An alias that contains white space is therefore
  out of reach of every key. A row in which one of the five fields has no matching key
  fails with \<open>MissingColumns\<close>, and the message pushed for it names the five required
  columns.
\<close>

theorem header_resolution:
  "(findMatchingHeader headers row = None \<longleftrightarrow>
      (\<forall>key \<in> set (Object_keys row).
          removeWhiteSpace (toLowerCase key) \<notin> set (map toLowerCase headers))) \<and>
   (\<forall>k. findMatchingHeader headers row = Some k \<longrightarrow>
      k \<in> set (Object_keys row) \<and>
      removeWhiteSpace (toLowerCase k) \<in> set (map toLowerCase headers)) \<and>
   (\<forall>a key. (\<exists>c \<in> set a. isWhiteSpace c) \<longrightarrow>
      removeWhiteSpace (toLowerCase key) \<noteq> toLowerCase a) \<and>
   (\<not> columnsResolved row \<longrightarrow>
      validateRow env index row = Inl MissingColumns \<and>
      forEachRow env index [row] (ps, es) =
        (ps, es @ [''Row '' @ numberToString (int index + 1) @
           '': Missing or invalid column headers. Required columns: Name, Assigned Clinician, Assigned Date, Units Used, Status''])) \<and>
   removeWhiteSpace s = filter (\<lambda>c. c \<notin> {CHR 0x09, CHR 0x0A, CHR 0x0B, CHR 0x0C, CHR 0x0D, CHR '' '', CHR 0xA0}) s \<and>
   length (toLowerCase s) = length s"
proof -
  have 1: "\<forall>k. findMatchingHeader headers row = Some k \<longrightarrow>
      k \<in> set (Object_keys row) \<and>
      removeWhiteSpace (toLowerCase k) \<in> set (map toLowerCase headers)"
    using findMatchingHeader_Some [of headers row] by blast
  have 2: "\<forall>a key. (\<exists>c \<in> set a. isWhiteSpace c) \<longrightarrow>
      removeWhiteSpace (toLowerCase key) \<noteq> toLowerCase a"
    using alias_with_space_unmatched by blast
  have 3: "validateRow env index row = Inl MissingColumns \<and>
      forEachRow env index [row] (ps, es) =
        (ps, es @ [''Row '' @ numberToString (int index + 1) @
           '': Missing or invalid column headers. Required columns: Name, Assigned Clinician, Assigned Date, Units Used, Status''])"
    if "\<not> columnsResolved row"
  proof -
    from that have v: "validateRow env index row = Inl MissingColumns"
      by (simp add: validateRow_Inl_iff)
    then show ?thesis by (simp add: errorMessage_def)
  qed
  have 4: "removeWhiteSpace s = filter (\<lambda>c. c \<notin> {CHR 0x09, CHR 0x0A, CHR 0x0B, CHR 0x0C, CHR 0x0D, CHR '' '', CHR 0xA0}) s"
    by (simp add: removeWhiteSpace_def isWhiteSpace_def)
  have 5: "length (toLowerCase s) = length s"
    by (simp add: toLowerCase_def)
  from 1 2 3 4 5 findMatchingHeader_None [of headers row] show ?thesis by blast
qed

theorem header_resolution_witness:
  "findMatchingHeader EXPECTED_name badHeaderRow = Some ''Client Name'' \<and>
   ''Client Name'' \<in> set (Object_keys badHeaderRow) \<and>
   removeWhiteSpace (toLowerCase ''Client Name'') \<in> set (map toLowerCase EXPECTED_name) \<and>
   findMatchingHeader EXPECTED_assignedDate badHeaderRow = None \<and>
   findMatchingHeader EXPECTED_status badHeaderRow = None \<and>
   removeWhiteSpace (toLowerCase ''Client Status'') \<noteq> toLowerCase ''client status'' \<and>
   findMatchingHeader EXPECTED_unitsUsed [(''Units'' @ [CHR 0xA0] @ ''Used'', ''100'')]
     = Some (''Units'' @ [CHR 0xA0] @ ''Used'') \<and>
   removeWhiteSpace (toLowerCase (''Units'' @ [CHR 0xA0] @ ''Used''))
     \<in> set (map toLowerCase EXPECTED_unitsUsed) \<and>
   \<not> columnsResolved badHeaderRow \<and>
   validateRow sampleEnv 0 badHeaderRow = Inl MissingColumns \<and>
   forEachRow sampleEnv 0 [badHeaderRow] ([], []) =
     ([], [''Row 1: Missing or invalid column headers. Required columns: Name, Assigned Clinician, Assigned Date, Units Used, Status''])"
proof -
  have a: "findMatchingHeader EXPECTED_name badHeaderRow = Some ''Client Name''" by code_simp
  have b: "findMatchingHeader EXPECTED_assignedDate badHeaderRow = None" by code_simp
  have c: "findMatchingHeader EXPECTED_status badHeaderRow = None" by code_simp
  have d: "\<not> columnsResolved badHeaderRow" using b by (simp add: columnsResolved_def)
  have e: "\<exists>c \<in> set ''client status''. isWhiteSpace c" by (simp add: isWhiteSpace_def)
  have n: "numberToString (int 0 + 1) = ''1''" by code_simp
  have g: "findMatchingHeader EXPECTED_unitsUsed [(''Units'' @ [CHR 0xA0] @ ''Used'', ''100'')]
     = Some (''Units'' @ [CHR 0xA0] @ ''Used'')" by code_simp
  from header_resolution [of EXPECTED_unitsUsed "[(''Units'' @ [CHR 0xA0] @ ''Used'', ''100'')]"] g
  have 0: "removeWhiteSpace (toLowerCase (''Units'' @ [CHR 0xA0] @ ''Used''))
     \<in> set (map toLowerCase EXPECTED_unitsUsed)" by blast
  note t = header_resolution [of EXPECTED_name badHeaderRow sampleEnv 0 "[]" "[]"]
  from t a have 1: "''Client Name'' \<in> set (Object_keys badHeaderRow) \<and>
      removeWhiteSpace (toLowerCase ''Client Name'') \<in> set (map toLowerCase EXPECTED_name)"
    by blast
  from t e have 2: "removeWhiteSpace (toLowerCase ''Client Status'') \<noteq> toLowerCase ''client status''"
    by blast
  from t d have 3: "validateRow sampleEnv 0 badHeaderRow = Inl MissingColumns \<and>
      forEachRow sampleEnv 0 [badHeaderRow] ([], []) =
        ([], [] @ [''Row '' @ numberToString (int 0 + 1) @
           '': Missing or invalid column headers. Required columns: Name, Assigned Clinician, Assigned Date, Units Used, Status''])"
    by blast
  from 3 have 4: "forEachRow sampleEnv 0 [badHeaderRow] ([], []) =
     ([], [''Row 1: Missing or invalid column headers. Required columns: Name, Assigned Clinician, Assigned Date, Units Used, Status''])"
    by (simp only: n append.simps)
  from a b c d g 0 1 2 3 4 show ?thesis by blast
qed

subsection \<open>The sample rows\<close>

lemma sampleRow_headers:
  "findMatchingHeader EXPECTED_name (sampleRow n u s) = Some ''Name''"
  "findMatchingHeader EXPECTED_clinician (sampleRow n u s) = Some ''Assigned Clinician''"
  "findMatchingHeader EXPECTED_assignedDate (sampleRow n u s) = Some ''Assigned Date''"
  "findMatchingHeader EXPECTED_unitsUsed (sampleRow n u s) = Some ''Units Used''"
  "findMatchingHeader EXPECTED_status (sampleRow n u s) = Some ''Status''"
  by code_simp+

lemma sampleRow_resolved:
  "resolved EXPECTED_name (sampleRow n u s) = Some (trim n)"
  "resolved EXPECTED_clinician (sampleRow n u s) = Some ''Dr. X''"
  "resolved EXPECTED_assignedDate (sampleRow n u s) = Some ''2024-01-05''"
  "resolved EXPECTED_unitsUsed (sampleRow n u s) = Some (trim u)"
  "resolved EXPECTED_status (sampleRow n u s) = Some (trim s)"
  unfolding resolved_def sampleRow_headers
  by (simp_all add: cell_def sampleRow_def trim_def isWhiteSpace_def)

lemma sampleRow_columnsResolved: "columnsResolved (sampleRow n u s)"
  by (simp add: columnsResolved_def sampleRow_headers)

lemma validateRow_sampleRow:
  "validateRow env index (sampleRow n u s) =
     (if trim n = [] \<or> trim u = [] \<or> trim s = [] then Inl MissingFields
      else (case parseInt (trim u) of
              None \<Rightarrow> Inl InvalidUnits
            | Some units \<Rightarrow>
                if units < 0 \<or> units > 960 then Inl InvalidUnits
                else if trim s \<notin> set CLIENT_STATUSES then Inl InvalidStatus
                else (case dateParse env ''2024-01-05'' of
                        None \<Rightarrow> Inl InvalidDate
                      | Some date \<Rightarrow>
                          Inr \<lparr>id_client = randomUUID env index,
                               name = trim n,
                               clinician = ''Dr. X'',
                               assignedDate = toISOString env date,
                               unitsUsed = units,
                               status = trim s,
                               lastUpdated = nowISO env index\<rparr>)))"
  by (simp add: validateRow_unfold sampleRow_columnsResolved valuesPresent_def present_def
        sampleRow_resolved split: option.splits)

lemma sample_values:
  "trim ''Jane'' = ''Jane''" "trim ''John'' = ''John''"
  "trim '' Newly Assigned'' = ''Newly Assigned''" "trim ''Newly Assigned'' = ''Newly Assigned''"
  "trim '' 100'' = ''100''" "trim '' 1000'' = ''1000''"
  "trim ''960.5'' = ''960.5''" "trim ''12abc'' = ''12abc''" "trim ''12.7'' = ''12.7''"
  "trim ''1000'' = ''1000''"
  "parseInt ''100'' = Some 100" "parseInt ''1000'' = Some 1000"
  "parseInt ''960.5'' = Some 960" "parseInt ''12abc'' = Some 12" "parseInt ''12.7'' = Some 12"
  "randomUUID sampleEnv 0 = ''id-0''" "randomUUID sampleEnv 1 = ''id-1''"
  "nowISO sampleEnv k = ''2024-03-20T00:00:00.000Z''"
  "dateParse sampleEnv ''2024-01-05'' = Some 1704412800000"
  "toISOString sampleEnv 1704412800000 = ''2024-01-05T00:00:00.000Z''"
  by code_simp+

subsection \<open>All or nothing\<close>

lemma rowResults_nth:
  "k < length data \<Longrightarrow> rowResults env n data ! k = (n + k, validateRow env (n + k) (data ! k))"
  by (simp add: rowResults_def nth_enumerate_eq)

lemma set_rowResults:
  "set (rowResults env 0 data) = {(k, validateRow env k (data ! k)) | k. k < length data}"
proof -
  have "set (rowResults env 0 data) = {rowResults env 0 data ! k | k. k < length data}"
    by (simp add: set_conv_nth length_rowResults)
  also have "\<dots> = {(k, validateRow env k (data ! k)) | k. k < length data}"
    using rowResults_nth [of _ data env 0] by (auto; metis)
  finally show ?thesis .
qed

lemma pushedError_Nil_iff:
  "List.map_filter pushedError rs = [] \<longleftrightarrow> (\<forall>r \<in> set rs. \<not> isl (snd r))"
  by (induction rs) (auto simp: pushedError_def split: sum.splits)

lemma pushedClient_all:
  "\<forall>r \<in> set rs. \<not> isl (snd r) \<Longrightarrow> List.map_filter pushedClient rs = map (\<lambda>r. projr (snd r)) rs"
  by (induction rs) (auto simp: pushedClient_def split: sum.splits)

lemma errors_Nil_iff:
  "List.map_filter pushedError (rowResults env 0 data) = [] \<longleftrightarrow>
     (\<forall>k < length data. \<not> isl (validateRow env k (data ! k)))"
  unfolding pushedError_Nil_iff set_rowResults by auto

lemma parseCSV_unfold:
  "parseCSV env data =
     (if List.map_filter pushedError (rowResults env 0 data) \<noteq> []
      then \<lparr>preview = [], error = join [CHR 0x0A] (List.map_filter pushedError (rowResults env 0 data))\<rparr>
      else \<lparr>preview = List.map_filter pushedClient (rowResults env 0 data), error = []\<rparr>)"
  by (simp add: parseCSV_def forEachRow_pushes)

text \<open>
  Claim C1. The import is all or nothing. If some row of the data fails validation, the
  preview is empty, the only output is the error text (the messages of the failing rows,
  joined by line feeds, of which there is at least one), and confirming the import leaves
  the roster as it was. So a non-empty preview is produced only when every row validates;
  then the preview holds the client of every row, in order, and no error text.
\<close>

theorem import_all_or_nothing:
  "((\<exists>k < length data. isl (validateRow env k (data ! k))) \<longrightarrow>
      preview (parseCSV env data) = [] \<and>
      error (parseCSV env data) =
        join [CHR 0x0A] (List.map_filter pushedError (rowResults env 0 data)) \<and>
      List.map_filter pushedError (rowResults env 0 data) \<noteq> [] \<and>
      handleImport (parseCSV env data) clients = (clients, parseCSV env data)) \<and>
   (preview (parseCSV env data) \<noteq> [] \<longrightarrow>
      (\<forall>k < length data. \<not> isl (validateRow env k (data ! k)))) \<and>
   ((\<forall>k < length data. \<not> isl (validateRow env k (data ! k))) \<longrightarrow>
      preview (parseCSV env data) = map (\<lambda>r. projr (snd r)) (rowResults env 0 data) \<and>
      error (parseCSV env data) = [])"
proof -
  have 1: "preview (parseCSV env data) = [] \<and>
      error (parseCSV env data) =
        join [CHR 0x0A] (List.map_filter pushedError (rowResults env 0 data)) \<and>
      List.map_filter pushedError (rowResults env 0 data) \<noteq> [] \<and>
      handleImport (parseCSV env data) clients = (clients, parseCSV env data)"
    if "\<exists>k < length data. isl (validateRow env k (data ! k))"
  proof -
    from that have ne: "List.map_filter pushedError (rowResults env 0 data) \<noteq> []"
      by (simp add: errors_Nil_iff)
    then show ?thesis by (simp add: parseCSV_unfold handleImport_def)
  qed
  have 3: "preview (parseCSV env data) = map (\<lambda>r. projr (snd r)) (rowResults env 0 data) \<and>
      error (parseCSV env data) = []"
    if "\<forall>k < length data. \<not> isl (validateRow env k (data ! k))"
  proof -
    from that have e: "List.map_filter pushedError (rowResults env 0 data) = []"
      by (simp add: errors_Nil_iff)
    then have "\<forall>r \<in> set (rowResults env 0 data). \<not> isl (snd r)"
      by (simp add: pushedError_Nil_iff)
    from pushedClient_all [OF this] e show ?thesis by (simp add: parseCSV_unfold)
  qed
  from 1 have 2: "\<forall>k < length data. \<not> isl (validateRow env k (data ! k))"
    if "preview (parseCSV env data) \<noteq> []"
    using that by blast
  from 1 2 3 show ?thesis by blast
qed

lemma more_sample_values:
  "trim ''Doe, John'' = ''Doe, John''"
  "randomUUID sampleEnv (Suc 0) = ''id-1''"
  "numberToString 1 = ''1''" "numberToString 2 = ''2''"
  "numberToString 100 = ''100''" "numberToString 12 = ''12''"
  "localeDateOf sampleEnv ''2024-01-05T00:00:00.000Z'' = ''1/5/2024''"
  "localeDateOf sampleEnv ''2024-03-20T00:00:00.000Z'' = ''3/20/2024''"
  by code_simp+

lemma mixedData_results:
  "validateRow sampleEnv 0 (sampleRow ''Jane'' '' 100'' '' Newly Assigned'') =
     Inr \<lparr>id_client = ''id-0'', name = ''Jane'', clinician = ''Dr. X'',
          assignedDate = ''2024-01-05T00:00:00.000Z'', unitsUsed = 100,
          status = ''Newly Assigned'', lastUpdated = ''2024-03-20T00:00:00.000Z''\<rparr>"
  "validateRow sampleEnv (Suc 0) (sampleRow ''John'' '' 1000'' '' Newly Assigned'') = Inl InvalidUnits"
  "validateRow sampleEnv (Suc 0) (sampleRow ''Doe, John'' ''12.7'' ''Newly Assigned'') =
     Inr \<lparr>id_client = ''id-1'', name = ''Doe, John'', clinician = ''Dr. X'',
          assignedDate = ''2024-01-05T00:00:00.000Z'', unitsUsed = 12,
          status = ''Newly Assigned'', lastUpdated = ''2024-03-20T00:00:00.000Z''\<rparr>"
  by (simp_all add: validateRow_sampleRow sample_values more_sample_values CLIENT_STATUSES_def)

lemma parseCSV_mixedData:
  "parseCSV sampleEnv mixedData =
     \<lparr>preview = [], error = ''Row 2: Invalid units (must be between 0-960)''\<rparr>"
  by (simp add: parseCSV_def mixedData_def mixedData_results errorMessage_def more_sample_values)

text \<open>
  The scenario of the specification: no client is staged and the one message names row 2
  and its units.
\<close>

theorem import_all_or_nothing_witness:
  "(1 < length mixedData \<and> isl (validateRow sampleEnv 1 (mixedData ! 1))) \<and>
   preview (parseCSV sampleEnv mixedData) = [] \<and>
   error (parseCSV sampleEnv mixedData) = ''Row 2: Invalid units (must be between 0-960)'' \<and>
   handleImport (parseCSV sampleEnv mixedData) sampleRoster
     = (sampleRoster, parseCSV sampleEnv mixedData)"
proof -
  have h: "1 < length mixedData \<and> isl (validateRow sampleEnv 1 (mixedData ! 1))"
    by (simp add: mixedData_def mixedData_results)
  then have "\<exists>k < length mixedData. isl (validateRow sampleEnv k (mixedData ! k))"
    by blast
  with import_all_or_nothing [of mixedData sampleEnv sampleRoster]
  have "preview (parseCSV sampleEnv mixedData) = [] \<and>
        handleImport (parseCSV sampleEnv mixedData) sampleRoster
          = (sampleRoster, parseCSV sampleEnv mixedData)"
    by blast
  with h parseCSV_mixedData show ?thesis by simp
qed

subsection \<open>Export\<close>

lemma join_comma_row:
  "join '','' [a, b, c, d, e, f] = a @ '','' @ b @ '','' @ c @ '','' @ d @ '','' @ e @ '','' @ f"
  by simp

text \<open>
  Claim C9. For every sequence of clients the exported text is the header line
  \<open>Name,Assigned Clinician,Assigned Date,Units Used,Status,Last Updated\<close> followed by one
  line per client, in the given order, the lines joined by line feeds; a client's line is
  its name, clinician and status as they are, its units as decimal digits and its two dates
  as the locale renders them, joined by commas with no quoting, so that a comma inside a
  name stays as it is. An empty roster gives the header line alone.
\<close>

theorem handleExport_format:
  "handleExport env clients =
     join [CHR 0x0A]
       (''Name,Assigned Clinician,Assigned Date,Units Used,Status,Last Updated'' #
        map (\<lambda>c. name c @ '','' @ clinician c @ '','' @ localeDateOf env (assignedDate c) @ '','' @
                  numberToString (unitsUsed c) @ '','' @ status c @ '','' @
                  localeDateOf env (lastUpdated c))
            clients) \<and>
   handleExport env [] = ''Name,Assigned Clinician,Assigned Date,Units Used,Status,Last Updated'' \<and>
   length (map (join '','') ([exportHeader] @ map (exportRow env) clients)) = 1 + length clients \<and>
   handleExport sampleEnv [sampleClient ''a'' ''Doe, John'' 100] =
     ''Name,Assigned Clinician,Assigned Date,Units Used,Status,Last Updated'' @ [CHR 0x0A] @
     ''Doe, John,Dr. Smith,1/5/2024,100,Newly Assigned,1/5/2024''"
proof -
  have h: "join '','' exportHeader
             = ''Name,Assigned Clinician,Assigned Date,Units Used,Status,Last Updated''"
    by (simp add: exportHeader_def)
  have r: "join '','' (exportRow env c) =
      name c @ '','' @ clinician c @ '','' @ localeDateOf env (assignedDate c) @ '','' @
      numberToString (unitsUsed c) @ '','' @ status c @ '','' @ localeDateOf env (lastUpdated c)"
    for c
    unfolding exportRow_def by (rule join_comma_row)
  have 1: "handleExport env clients =
     join [CHR 0x0A]
       (''Name,Assigned Clinician,Assigned Date,Units Used,Status,Last Updated'' #
        map (\<lambda>c. name c @ '','' @ clinician c @ '','' @ localeDateOf env (assignedDate c) @ '','' @
                  numberToString (unitsUsed c) @ '','' @ status c @ '','' @
                  localeDateOf env (lastUpdated c))
            clients)"
    unfolding handleExport_def by (simp add: h r comp_def)
  have 2: "handleExport env [] = ''Name,Assigned Clinician,Assigned Date,Units Used,Status,Last Updated''"
    unfolding handleExport_def by (simp add: h)
  have 3: "handleExport sampleEnv [sampleClient ''a'' ''Doe, John'' 100] =
     ''Name,Assigned Clinician,Assigned Date,Units Used,Status,Last Updated'' @ [CHR 0x0A] @
     ''Doe, John,Dr. Smith,1/5/2024,100,Newly Assigned,1/5/2024''"
    unfolding handleExport_def
    by (simp add: h exportRow_def sampleClient_def more_sample_values)
  from 1 2 3 show ?thesis by simp
qed

subsection \<open>Further sample values\<close>

lemma parseCSV_validData:
  "parseCSV sampleEnv validData =
     \<lparr>preview =
        [\<lparr>id_client = ''id-0'', name = ''Jane'', clinician = ''Dr. X'',
          assignedDate = ''2024-01-05T00:00:00.000Z'', unitsUsed = 100,
          status = ''Newly Assigned'', lastUpdated = ''2024-03-20T00:00:00.000Z''\<rparr>,
         \<lparr>id_client = ''id-1'', name = ''Doe, John'', clinician = ''Dr. X'',
          assignedDate = ''2024-01-05T00:00:00.000Z'', unitsUsed = 12,
          status = ''Newly Assigned'', lastUpdated = ''2024-03-20T00:00:00.000Z''\<rparr>],
      error = []\<rparr>"
  by (simp add: parseCSV_def validData_def mixedData_results)

lemma defect_values:
  "trim ''1e3'' = ''1e3''" "trim '' 960.5 '' = ''960.5''" "trim '' bogus'' = ''bogus''"
  "parseInt ''1e3'' = Some 1"
  "randomUUID westEnv 0 = ''id-0''"
  "nowISO westEnv k = ''2024-03-20T00:00:00.000Z''"
  "dateParse westEnv ''2024-01-05'' = Some 1704412800000"
  "toISOString westEnv 1704412800000 = ''2024-01-05T00:00:00.000Z''"
  "localeDateOf westEnv ''2024-01-05T00:00:00.000Z'' = ''1/4/2024''"
  "localeDateOf westEnv ''2024-03-20T00:00:00.000Z'' = ''3/19/2024''"
  by code_simp+

subsection \<open>The units of a row\<close>

text \<open>
  Claim C3. The claim is what the dialog itself announces (\<open>Units: Numbers between 0-960\<close>,
  \<open>Invalid units (must be between 0-960)\<close>), and the code departs from it: the units are
  read with \<open>parseInt\<close>, which stops at the first character that is not a digit and returns
  what it has read so far. Rows whose five values are present and whose units are the
  texts \<open>960.5\<close>, \<open>12abc\<close> and \<open>1e3\<close>, none an integer and the first and the last outside
  \<open>[0, 960]\<close>, are accepted, with 960, 12 and 1 units.
\<close>

theorem non_integer_units_accepted:
  "resolved EXPECTED_unitsUsed (sampleRow ''Jane'' ''960.5'' ''Newly Assigned'') = Some ''960.5'' \<and>
   validateRow sampleEnv 0 (sampleRow ''Jane'' ''960.5'' ''Newly Assigned'') =
     Inr \<lparr>id_client = ''id-0'', name = ''Jane'', clinician = ''Dr. X'',
          assignedDate = ''2024-01-05T00:00:00.000Z'', unitsUsed = 960,
          status = ''Newly Assigned'', lastUpdated = ''2024-03-20T00:00:00.000Z''\<rparr> \<and>
   resolved EXPECTED_unitsUsed (sampleRow ''Jane'' ''12abc'' ''Newly Assigned'') = Some ''12abc'' \<and>
   validateRow sampleEnv 0 (sampleRow ''Jane'' ''12abc'' ''Newly Assigned'') =
     Inr \<lparr>id_client = ''id-0'', name = ''Jane'', clinician = ''Dr. X'',
          assignedDate = ''2024-01-05T00:00:00.000Z'', unitsUsed = 12,
          status = ''Newly Assigned'', lastUpdated = ''2024-03-20T00:00:00.000Z''\<rparr> \<and>
   resolved EXPECTED_unitsUsed (sampleRow ''Jane'' ''1e3'' ''Newly Assigned'') = Some ''1e3'' \<and>
   validateRow sampleEnv 0 (sampleRow ''Jane'' ''1e3'' ''Newly Assigned'') =
     Inr \<lparr>id_client = ''id-0'', name = ''Jane'', clinician = ''Dr. X'',
          assignedDate = ''2024-01-05T00:00:00.000Z'', unitsUsed = 1,
          status = ''Newly Assigned'', lastUpdated = ''2024-03-20T00:00:00.000Z''\<rparr>"
  by (simp add: sampleRow_resolved validateRow_sampleRow sample_values defect_values
        CLIENT_STATUSES_def)

subsection \<open>The order of the checks\<close>

text \<open>
  Claim C5. The checks are made in the order of the claim, and the first that fails is the
  one reported; but the second check is not the one the claim states. A row with the
  units \<open>960.5\<close> and a status outside the set fails the claim's second check (the units are
  no integer within \<open>[0, 960]\<close>) and should report \<open>InvalidUnits\<close>; the code reads 960
  with \<open>parseInt\<close>, passes the units and reports \<open>InvalidStatus\<close>.
\<close>

theorem first_failure_misreported:
  "resolved EXPECTED_unitsUsed (sampleRow ''Jane'' '' 960.5 '' '' bogus'') = Some ''960.5'' \<and>
   resolved EXPECTED_status (sampleRow ''Jane'' '' 960.5 '' '' bogus'') = Some ''bogus'' \<and>
   ''bogus'' \<notin> set CLIENT_STATUSES \<and>
   validateRow sampleEnv 0 (sampleRow ''Jane'' '' 960.5 '' '' bogus'') = Inl InvalidStatus \<and>
   forEachRow sampleEnv 0 [sampleRow ''Jane'' '' 960.5 '' '' bogus''] ([], []) =
     ([], [''Row 1: Invalid status. Must be one of: New Authorization, Current Authorization, Current Authorization (New LBS), Newly Assigned, Client Hospitalized, Frequent Caregiver Cancellations''])"
proof -
  have v: "validateRow sampleEnv 0 (sampleRow ''Jane'' '' 960.5 '' '' bogus'') = Inl InvalidStatus"
    by (simp add: validateRow_sampleRow sample_values defect_values CLIENT_STATUSES_def)
  have m: "errorMessage 0 InvalidStatus =
     ''Row 1: Invalid status. Must be one of: New Authorization, Current Authorization, Current Authorization (New LBS), Newly Assigned, Client Hospitalized, Frequent Caregiver Cancellations''"
    by (simp add: errorMessage_def more_sample_values CLIENT_STATUSES_def)
  from v m show ?thesis
    by (simp add: sampleRow_resolved defect_values CLIENT_STATUSES_def)
qed

subsection \<open>Import followed by export\<close>

lemma parseCSV_westEnv:
  "parseCSV westEnv [sampleRow ''Jane'' '' 100'' '' Newly Assigned''] =
     \<lparr>preview =
        [\<lparr>id_client = ''id-0'', name = ''Jane'', clinician = ''Dr. X'',
          assignedDate = ''2024-01-05T00:00:00.000Z'', unitsUsed = 100,
          status = ''Newly Assigned'', lastUpdated = ''2024-03-20T00:00:00.000Z''\<rparr>],
      error = []\<rparr>"
  by (simp add: parseCSV_def validateRow_sampleRow sample_values defect_values
        CLIENT_STATUSES_def)

text \<open>
  Claim C6. The claim is what the import and the export are written to do, and the code
  departs from it in two places. The date: the dialog asks for dates as \<open>YYYY-MM-DD\<close>;
  such a text is parsed as midnight UTC and exported in local time, so in a browser west
  of UTC the valid row dated \<open>2024-01-05\<close> is exported with the date \<open>1/4/2024\<close>, the day
  before. The units: a valid row whose units are \<open>12.7\<close> is exported with 12 units, \<open>parseInt\<close>
  having dropped the fraction.
\<close>

theorem round_trip_defects:
  "resolved EXPECTED_assignedDate (sampleRow ''Jane'' '' 100'' '' Newly Assigned'') = Some ''2024-01-05'' \<and>
   error (parseCSV westEnv [sampleRow ''Jane'' '' 100'' '' Newly Assigned'']) = [] \<and>
   handleExport westEnv (preview (parseCSV westEnv [sampleRow ''Jane'' '' 100'' '' Newly Assigned''])) =
     ''Name,Assigned Clinician,Assigned Date,Units Used,Status,Last Updated'' @ [CHR 0x0A] @
     ''Jane,Dr. X,1/4/2024,100,Newly Assigned,3/19/2024'' \<and>
   resolved EXPECTED_unitsUsed (validData ! 1) = Some ''12.7'' \<and>
   error (parseCSV sampleEnv validData) = [] \<and>
   handleExport sampleEnv (preview (parseCSV sampleEnv validData)) =
     ''Name,Assigned Clinician,Assigned Date,Units Used,Status,Last Updated'' @ [CHR 0x0A] @
     ''Jane,Dr. X,1/5/2024,100,Newly Assigned,3/20/2024'' @ [CHR 0x0A] @
     ''Doe, John,Dr. X,1/5/2024,12,Newly Assigned,3/20/2024''"
proof -
  have 1: "resolved EXPECTED_unitsUsed (validData ! 1) = Some ''12.7''"
    by (simp add: validData_def sampleRow_resolved sample_values)
  have 2: "handleExport sampleEnv (preview (parseCSV sampleEnv validData)) =
     ''Name,Assigned Clinician,Assigned Date,Units Used,Status,Last Updated'' @ [CHR 0x0A] @
     ''Jane,Dr. X,1/5/2024,100,Newly Assigned,3/20/2024'' @ [CHR 0x0A] @
     ''Doe, John,Dr. X,1/5/2024,12,Newly Assigned,3/20/2024''"
    unfolding parseCSV_validData handleExport_def
    by (simp add: exportHeader_def exportRow_def more_sample_values)
  have 3: "error (parseCSV sampleEnv validData) = []"
    by (simp add: parseCSV_validData)
  have 4: "handleExport westEnv (preview (parseCSV westEnv [sampleRow ''Jane'' '' 100'' '' Newly Assigned''])) =
     ''Name,Assigned Clinician,Assigned Date,Units Used,Status,Last Updated'' @ [CHR 0x0A] @
     ''Jane,Dr. X,1/4/2024,100,Newly Assigned,3/19/2024''"
    unfolding parseCSV_westEnv handleExport_def
    by (simp add: exportHeader_def exportRow_def more_sample_values defect_values)
  have 5: "error (parseCSV westEnv [sampleRow ''Jane'' '' 100'' '' Newly Assigned'']) = []"
    by (simp add: parseCSV_westEnv)
  from 1 2 3 4 5 show ?thesis by (simp add: sampleRow_resolved)
qed

end
